theory Spec2Isabelle
  imports Main "HOL-Library.Sublist" "HOL-Library.AList"
begin

section \<open>Python values and library functions used by the agents\<close>

text \<open>
  The three modules (\<^verbatim>\<open>autonomous_agent.py\<close>, \<^verbatim>\<open>script_agent.py\<close>,
  \<^verbatim>\<open>complete_script_img_agent.py\<close>) are Python. A Python \<^verbatim>\<open>str\<close> is modelled as
  a HOL \<open>string\<close>, read as a sequence of code points below 256; on these
  \<^verbatim>\<open>str.lower\<close> and \<^verbatim>\<open>str.strip\<close> stay inside the range, so the model is closed.
  A Python \<^verbatim>\<open>int\<close> is a HOL \<open>int\<close>. A raised exception is a value of type \<open>exn\<close>;
  a computation that may raise has a result of type \<open>exn + 'a\<close> with \<open>Inl\<close> the raise.
  Output written with \<^verbatim>\<open>print\<close> is not modelled.
\<close>

datatype exn =
    AssertionError string
  | ModuleNotFoundError string
  | JSONDecodeError string
  | ValueError string
  | OSError string
  | PyException string

text \<open>\<^verbatim>\<open>str(e)\<close>: the message the exception carries.\<close>

fun str_exn :: "exn \<Rightarrow> string" where
  "str_exn (AssertionError m) = m"
| "str_exn (ModuleNotFoundError m) = m"
| "str_exn (JSONDecodeError m) = m"
| "str_exn (ValueError m) = m"
| "str_exn (OSError m) = m"
| "str_exn (PyException m) = m"

subsection \<open>Strings\<close>

text \<open>\<^verbatim>\<open>str.lower\<close> on code points below 256: A-Z and the Latin-1 capitals
  (0xC0-0xDE without the multiplication sign 0xD7) move up by 32.\<close>

definition lower_char :: "char \<Rightarrow> char" where
  "lower_char c =
     (let n = (of_char c :: nat)
      in if (65 \<le> n \<and> n \<le> 90) \<or> (192 \<le> n \<and> n \<le> 222 \<and> n \<noteq> 215)
         then char_of (n + 32) else c)"

definition py_lower :: "string \<Rightarrow> string" where
  "py_lower s = map lower_char s"

text \<open>\<^verbatim>\<open>str.isspace\<close> on code points below 256: tab to carriage return, the four
  separators 0x1C-0x1F, space, NEL (0x85) and the no-break space (0xA0).\<close>

definition is_space :: "char \<Rightarrow> bool" where
  "is_space c =
     (let n = (of_char c :: nat)
      in (9 \<le> n \<and> n \<le> 13) \<or> (28 \<le> n \<and> n \<le> 32) \<or> n = 133 \<or> n = 160)"

definition py_strip :: "string \<Rightarrow> string" where
  "py_strip s = rev (dropWhile is_space (rev (dropWhile is_space s)))"

text \<open>\<^verbatim>\<open>sub in s\<close> for strings: \<open>sub\<close> occurs as a contiguous piece of \<open>s\<close>.\<close>

fun py_in :: "string \<Rightarrow> string \<Rightarrow> bool" where
  "py_in sub [] = (sub = [])"
| "py_in sub (c # s) = (prefix sub (c # s) \<or> py_in sub s)"

text \<open>\<^verbatim>\<open>s.split(sep)\<close> for a separator of one character: every occurrence cuts,
  so the result is never empty and \<^verbatim>\<open>"".split(sep) == [""]\<close>.\<close>

fun py_split :: "char \<Rightarrow> string \<Rightarrow> string list" where
  "py_split sep [] = [[]]"
| "py_split sep (c # s) =
     (if c = sep then [] # py_split sep s
      else (case py_split sep s of
              [] \<Rightarrow> [[c]]
            | w # ws \<Rightarrow> (c # w) # ws))"

text \<open>\<^verbatim>\<open>s.split(sep, 1)\<close> for a separator of one character: at most one cut, at the
  first occurrence.\<close>

definition py_split1 :: "char \<Rightarrow> string \<Rightarrow> string list" where
  "py_split1 sep s =
     (case dropWhile (\<lambda>c. c \<noteq> sep) s of
        [] \<Rightarrow> [s]
      | _ # rest \<Rightarrow> [takeWhile (\<lambda>c. c \<noteq> sep) s, rest])"

text \<open>\<^verbatim>\<open>s.replace(old, new)\<close>: the occurrences of \<open>old\<close> are found from the left and
  do not overlap; an empty \<open>old\<close> matches before every character and at the end.\<close>

function replace_ne :: "string \<Rightarrow> string \<Rightarrow> string \<Rightarrow> string" where
  "replace_ne old new [] = []"
| "replace_ne old new (c # s) =
     (if old \<noteq> [] \<and> prefix old (c # s)
      then new @ replace_ne old new (drop (length old) (c # s))
      else c # replace_ne old new s)"
  by pat_completeness auto
termination
  by (relation "measure (\<lambda>(old, new, s). length s)") (auto simp: neq_Nil_conv)

definition py_replace :: "string \<Rightarrow> string \<Rightarrow> string \<Rightarrow> string" where
  "py_replace old new s =
     (if old = [] then new @ concat (map (\<lambda>c. c # new) s) else replace_ne old new s)"

text \<open>\<^verbatim>\<open>xs[:n]\<close> for an \<^verbatim>\<open>int\<close> \<open>n\<close>: a negative bound counts from the end.\<close>

definition py_slice_to :: "int \<Rightarrow> 'a list \<Rightarrow> 'a list" where
  "py_slice_to n xs =
     (if 0 \<le> n then take (nat n) xs else take (length xs - nat (- n)) xs)"

text \<open>The decimal form of an integer: its digits, with a minus sign when negative.
  Python's own conversion \<^verbatim>\<open>str(i)\<close> is \<open>str_int\<close> below: it gives this form or
  refuses the integer for its length.\<close>

definition digit_char :: "nat \<Rightarrow> char" where
  "digit_char d = char_of (48 + d)"

fun digits :: "nat \<Rightarrow> string" where
  "digits n = (if n < 10 then [digit_char n] else digits (n div 10) @ [digit_char (n mod 10)])"

declare digits.simps [simp del]

definition decimal :: "int \<Rightarrow> string" where
  "decimal i = (if i < 0 then CHR ''-'' # digits (nat (- i)) else digits (nat i))"

text \<open>\<^verbatim>\<open>sep.join(xs)\<close>.\<close>

fun py_join :: "string \<Rightarrow> string list \<Rightarrow> string" where
  "py_join sep [] = []"
| "py_join sep [x] = x"
| "py_join sep (x # y # ys) = x @ sep @ py_join sep (y # ys)"

subsection \<open>JSON documents and \<^verbatim>\<open>json.dumps\<close>\<close>

text \<open>The documents the code builds and reads hold strings, lists and objects; a
  Python \<^verbatim>\<open>dict\<close> keeps insertion order, so an object is an association list.
  Floating-point numbers do not occur in what the code serialises and are left out.
  No tool serialises a number either: every document given to \<open>dumps\<close> below is
  built from \<open>JObj\<close>, \<open>JArr\<close> and \<open>JStr\<close> only, and the line for \<open>JInt\<close> is there for
  totality.\<close>

datatype json =
    JNull
  | JBool bool
  | JInt int
  | JStr string
  | JArr "json list"
  | JObj "(string \<times> json) list"

text \<open>\<^verbatim>\<open>json.dumps\<close> with its defaults (\<^verbatim>\<open>ensure_ascii=True\<close>, separators
  \<^verbatim>\<open>", "\<close> and \<^verbatim>\<open>": "\<close>): inside a string the quote and the backslash are
  escaped, the five short escapes are used, and every other character outside
  the range space to tilde becomes \<^verbatim>\<open>\u00xx\<close> in lower-case hexadecimal.\<close>

definition hex_char :: "nat \<Rightarrow> char" where
  "hex_char d = (if d < 10 then char_of (48 + d) else char_of (87 + d))"

definition escape_char :: "char \<Rightarrow> string" where
  "escape_char c =
     (let n = (of_char c :: nat)
      in if c = CHR 0x22 then [CHR 0x5C, CHR 0x22]
         else if c = CHR 0x5C then [CHR 0x5C, CHR 0x5C]
         else if n = 8 then [CHR 0x5C, CHR ''b'']
         else if n = 12 then [CHR 0x5C, CHR ''f'']
         else if n = 10 then [CHR 0x5C, CHR ''n'']
         else if n = 13 then [CHR 0x5C, CHR ''r'']
         else if n = 9 then [CHR 0x5C, CHR ''t'']
         else if 32 \<le> n \<and> n \<le> 126 then [c]
         else [CHR 0x5C, CHR ''u'', CHR ''0'', CHR ''0'', hex_char (n div 16), hex_char (n mod 16)])"

definition dumps_str :: "string \<Rightarrow> string" where
  "dumps_str s = [CHR 0x22] @ concat (map escape_char s) @ [CHR 0x22]"

fun dumps :: "json \<Rightarrow> string" where
  "dumps JNull = ''null''"
| "dumps (JBool b) = (if b then ''true'' else ''false'')"
| "dumps (JInt i) = decimal i"
| "dumps (JStr s) = dumps_str s"
| "dumps (JArr xs) = ''['' @ py_join '', '' (map dumps xs) @ '']''"
| "dumps (JObj kvs) =
     ''{'' @ py_join '', '' (map (\<lambda>kv. dumps_str (fst kv) @ '': '' @ dumps (snd kv)) kvs) @ ''}''"



section \<open>The world outside the repository\<close>

text \<open>
  Everything the code calls but does not define enters as a field of \<open>env\<close>: the
  interpreter's string hash (salted per process, fixed within one), the
  \<^verbatim>\<open>google.generativeai\<close> package (whether it can be imported, whether a model
  object can be built, what text a prompt yields), the random generator, the file
  system's failures, \<^verbatim>\<open>json.loads\<close>, \<^verbatim>\<open>pathlib\<close>'s join and the ADK session service
  and runner. \<^verbatim>\<open>genai.configure(api_key=os.getenv("GOOGLE_API_KEY"))\<close> only records the
  key: it changes nothing the code reads back and is not a source of failures, so
  it has no counterpart in the model. \<open>int_max_str_digits\<close> is the interpreter's limit
  on the conversion between integers and strings (\<^verbatim>\<open>sys.get_int_max_str_digits()\<close>:
  4300 by default, 0 for no limit, as in interpreters that have none).

  A runner's event stream is a list of steps: an event, with the answer of
  \<^verbatim>\<open>is_final_response()\<close> and the outcome of reading \<^verbatim>\<open>event.content.parts[0].text\<close>
  (a \<^verbatim>\<open>str\<close>, as the functions' annotations say, or an exception), or the point
  where the stream (or the construction of the runner) raises.
\<close>

datatype step = Yield bool "exn + string" | Raise exn

record env =
  int_max_str_digits :: nat
  hash_str :: "string \<Rightarrow> int"
  import_genai :: "exn option"
  GenerativeModel :: "string \<Rightarrow> exn option"
  generate_content :: "string \<Rightarrow> string \<Rightarrow> exn + string"
  random_draw :: "nat \<Rightarrow> nat"
  mkdir_raises :: "string \<Rightarrow> exn option"
  open_raises :: "string \<Rightarrow> exn option"
  write_raises :: "string \<Rightarrow> string \<Rightarrow> exn option"
  json_loads :: "string \<Rightarrow> exn + json"
  path_join :: "string \<Rightarrow> string \<Rightarrow> string"
  create_session :: "string \<Rightarrow> exn option"
  run_async :: "string \<Rightarrow> string \<Rightarrow> string \<Rightarrow> step list"

text \<open>The part of the file system the code changes: the directories it makes and
  the text files it writes.\<close>

record world =
  dirs :: "string set"
  files :: "string \<rightharpoonup> string"

text \<open>\<^verbatim>\<open>str(i)\<close> and the formatting of an \<^verbatim>\<open>int\<close> in an f-string: an integer with
  more digits than the limit (the sign does not count) raises \<^verbatim>\<open>ValueError\<close>. The
  interpreter accepts 0 or at least 640 as the limit, and an integer of up to 640
  digits is always converted.\<close>

definition str_limit :: "env \<Rightarrow> nat" where
  "str_limit e = max 640 (int_max_str_digits e)"

definition str_int :: "env \<Rightarrow> int \<Rightarrow> exn + string" where
  "str_int e i =
     (if 0 < int_max_str_digits e \<and> str_limit e < length (digits (nat \<bar>i\<bar>))
      then Inl (ValueError (''Exceeds the limit ('' @ decimal (int (str_limit e))
             @ '' digits) for integer string conversion; ''
             @ ''use sys.set_int_max_str_digits() to increase the limit''))
      else Inr (decimal i))"

definition os_getenv :: "(string \<times> string) list \<Rightarrow> string \<Rightarrow> string option" where
  "os_getenv vars k = map_of vars k"

text \<open>\<^verbatim>\<open>with open(path, 'w') as f: f.write(d1); f.write(d2); ...\<close>: opening creates or
  truncates the file, each write appends, and the first failure leaves the block
  (a failure of the closing flush counts with the last write).\<close>

fun write_chunks :: "env \<Rightarrow> string \<Rightarrow> string list \<Rightarrow> world \<Rightarrow> exn option \<times> world" where
  "write_chunks e path [] w = (None, w)"
| "write_chunks e path (d # ds) w =
     (case write_raises e path d of
        Some ex \<Rightarrow> (Some ex, w)
      | None \<Rightarrow>
          write_chunks e path ds
            (w\<lparr>files := (files w)(path \<mapsto> (case files w path of None \<Rightarrow> d | Some old \<Rightarrow> old @ d))\<rparr>))"

definition with_open_w :: "env \<Rightarrow> string \<Rightarrow> string list \<Rightarrow> world \<Rightarrow> exn option \<times> world" where
  "with_open_w e path chunks w =
     (case open_raises e path of
        Some ex \<Rightarrow> (Some ex, w)
      | None \<Rightarrow> write_chunks e path chunks (w\<lparr>files := (files w)(path \<mapsto> [])\<rparr>))"

section \<open>\<^verbatim>\<open>autonomous_agent.py\<close>: the three tools\<close>

text \<open>Each tool ends in
  \<^verbatim>\<open>try: ... return json.dumps(doc)  except Exception as e: return json.dumps({"error": str(e)})\<close>.
  \<open>try_tool\<close> is that frame around the outcome of the guarded block.\<close>

definition error_doc :: "exn \<Rightarrow> json" where
  "error_doc ex = JObj [(''error'', JStr (str_exn ex))]"

definition try_tool :: "exn + json \<Rightarrow> string" where
  "try_tool body = (case body of Inr doc \<Rightarrow> dumps doc | Inl ex \<Rightarrow> dumps (error_doc ex))"

subsection \<open>\<^verbatim>\<open>generate_video_content\<close>\<close>

text \<open>The prompt is an f-string that formats \<^verbatim>\<open>scene_count\<close>, so building it can
  raise.\<close>

definition video_prompt :: "env \<Rightarrow> string \<Rightarrow> int \<Rightarrow> exn + string" where
  "video_prompt e topic scene_count =
     (case str_int e scene_count of
        Inl ex \<Rightarrow> Inl ex
      | Inr count \<Rightarrow>
          Inr (''Write '' @ count @ '' concise educational points about '' @ [CHR 0x27]
                 @ topic @ [CHR 0x27]
                 @ ''. Each point should be 1-2 sentences suitable for a video script.''))"

definition banned_phrases :: "string list" where
  "banned_phrases = [''any more'', ''certainly'', ''here are'']"

text \<open>The body of the loop over \<^verbatim>\<open>content_lines\<close>, from the list built so far and the
  next raw line to the list after it.\<close>

definition clean_line :: "string list \<Rightarrow> string \<Rightarrow> string list" where
  "clean_line content_list raw =
     (let line = py_strip raw
      in if line \<noteq> [] \<and> \<not> list_ex (\<lambda>phrase. py_in phrase (py_lower line)) banned_phrases
         then (let line' = (if py_in ''. '' (take 5 line)
                            then py_strip (last (py_split1 (CHR ''.'') line))
                            else line)
               in if line' \<noteq> [] then content_list @ [line'] else content_list)
         else content_list)"

fun clean_loop :: "string list \<Rightarrow> string list \<Rightarrow> string list" where
  "clean_loop content_list [] = content_list"
| "clean_loop content_list (raw # rest) = clean_loop (clean_line content_list raw) rest"

definition content_points :: "string \<Rightarrow> int \<Rightarrow> string list" where
  "content_points response_text scene_count =
     py_slice_to scene_count (clean_loop [] (py_split (CHR 0x0A) response_text))"

text \<open>The import of \<^verbatim>\<open>google.generativeai\<close> (and \<^verbatim>\<open>genai.configure\<close>) stands before
  the \<^verbatim>\<open>try\<close>; the model object, the prompt, the request, the reading of
  \<^verbatim>\<open>response.text\<close> and the clean-up stand inside it, in this order.\<close>

definition generate_video_content :: "env \<Rightarrow> string \<Rightarrow> int \<Rightarrow> exn + string" where
  "generate_video_content e topic scene_count =
     (case import_genai e of
        Some ex \<Rightarrow> Inl ex
      | None \<Rightarrow>
          Inr (try_tool
            (case GenerativeModel e ''gemini-2.0-flash'' of
               Some ex \<Rightarrow> Inl ex
             | None \<Rightarrow>
                 (case video_prompt e topic scene_count of
                    Inl ex \<Rightarrow> Inl ex
                  | Inr prompt \<Rightarrow>
                      (case generate_content e ''gemini-2.0-flash'' prompt of
                         Inl ex \<Rightarrow> Inl ex
                       | Inr response_text \<Rightarrow>
                           Inr (JObj [(''content_points'',
                                       JArr (map JStr
                                         (content_points response_text scene_count)))]))))))"

subsection \<open>\<^verbatim>\<open>search_stock_video\<close>\<close>

definition clean_query :: "string \<Rightarrow> string" where
  "clean_query query = py_replace ''.'' [] (py_replace '' '' ''-'' (py_lower query))"

definition video_id :: "env \<Rightarrow> string \<Rightarrow> int" where
  "video_id e query = \<bar>hash_str e query\<bar> mod 10000000"

definition search_stock_video :: "env \<Rightarrow> string \<Rightarrow> exn + string" where
  "search_stock_video e query =
     Inr (try_tool
       (case str_int e (video_id e query) of
          Inl ex \<Rightarrow> Inl ex
        | Inr id_text \<Rightarrow>
            Inr (JObj
              [(''video'', JStr (''https://media.gettyimages.com/id/'' @ id_text
                                 @ ''/video/'' @ clean_query query @ ''.mp4'')),
               (''poster'', JStr (''https://media.gettyimages.com/id/'' @ id_text
                                  @ ''/video/'' @ clean_query query @ ''.jpg''))])))"

subsection \<open>\<^verbatim>\<open>generate_audio_file\<close>\<close>

text \<open>\<^verbatim>\<open>string.ascii_uppercase + string.digits\<close>.\<close>

definition audio_alphabet :: "string" where
  "audio_alphabet = ''ABCDEFGHIJKLMNOPQRSTUVWXYZ0123456789''"

text \<open>\<^verbatim>\<open>random.choice(seq)\<close> for a non-empty \<open>seq\<close> (its only argument here is the
  alphabet above): the generator's \<open>i\<close>-th draw, brought below the length.\<close>

definition random_choice :: "env \<Rightarrow> nat \<Rightarrow> string \<Rightarrow> char" where
  "random_choice e i seq = seq ! (random_draw e i mod length seq)"

definition random_chars :: "env \<Rightarrow> string" where
  "random_chars e = map (\<lambda>i. random_choice e i audio_alphabet) [0..<4]"

text \<open>The file name is an f-string that formats \<^verbatim>\<open>index\<close>, so building it can raise.\<close>

definition audio_filename :: "env \<Rightarrow> int \<Rightarrow> exn + string" where
  "audio_filename e index =
     (case str_int e index of
        Inl ex \<Rightarrow> Inl ex
      | Inr index_text \<Rightarrow>
          Inr (''static/audio/'' @ index_text @ ''_'' @ random_chars e @ ''.mp3''))"

definition audio_placeholder :: "string \<Rightarrow> string list" where
  "audio_placeholder text_in =
     [''Audio placeholder for: '' @ text_in @ [CHR 0x0A],
      ''Use Google Text-to-Speech or ElevenLabs API to generate actual audio'' @ [CHR 0x0A]]"

definition generate_audio_file :: "env \<Rightarrow> string \<Rightarrow> int \<Rightarrow> world \<Rightarrow> (exn + string) \<times> world" where
  "generate_audio_file e text_in index w =
     (case mkdir_raises e ''static/audio'' of
        Some ex \<Rightarrow> (Inr (try_tool (Inl ex)), w)
      | None \<Rightarrow>
          (let w1 = w\<lparr>dirs := dirs w \<union> {''static'', ''static/audio''}\<rparr>
           in case audio_filename e index of
                Inl ex \<Rightarrow> (Inr (try_tool (Inl ex)), w1)
              | Inr filename \<Rightarrow>
                  (case with_open_w e (py_replace ''.mp3'' ''.txt'' filename)
                          (audio_placeholder text_in) w1 of
                     (Some ex, w2) \<Rightarrow> (Inr (try_tool (Inl ex)), w2)
                   | (None, w2) \<Rightarrow>
                       (Inr (try_tool (Inr (JObj [(''audio_file'', JStr filename),
                                                  (''text'', JStr text_in)]))), w2))))"


section \<open>\<^verbatim>\<open>complete_script_img_agent.py\<close>: the pipeline\<close>

subsection \<open>Stages 1 and 2: one runner loop each\<close>

text \<open>\<^verbatim>\<open>async for event in runner.run_async(...)\<close> with the response initialised to
  the empty string: the first event that is a final response ends the loop with
  its text; a stream that ends without one leaves the empty string.\<close>

fun first_final :: "step list \<Rightarrow> exn + string" where
  "first_final [] = Inr []"
| "first_final (Raise ex # rest) = Inl ex"
| "first_final (Yield is_final txt # rest) = (if is_final then txt else first_final rest)"




definition keywords_prompt_head :: string where
  \<open>keywords_prompt_head =
     ''You are an expert at analyzing video script content and identifying ''
       @ ''visual elements for illustrations.\<newline>''
       @ ''\<newline>''
       @ ''Analyze this video script content and give me the search keywords for ''
       @ ''finding vector illustrations for this content.\<newline>''
       @ ''\<newline>''
       @ ''Script content:\<newline>''\<close>

definition keywords_prompt_tail :: string where
  \<open>keywords_prompt_tail =
     ''\<newline>''
       @ ''\<newline>''
       @ ''Requirements:\<newline>''
       @ ''- Extract 5-8 relevant keywords that would be good for finding vector ''
       @ ''illustrations\<newline>''
       @ ''- Focus on visual elements, concepts, and objects mentioned in the ''
       @ ''script\<newline>''
       @ ''- Keywords should be suitable for educational vector illustrations\<newline>''
       @ ''- Return the output in JSON format, strictly like this: {"keywords": ''
       @ ''["keyword1", "keyword2", "keyword3"]}\<newline>''
       @ ''\<newline>''
       @ ''Provide the keywords now:''\<close>

definition keywords_prompt :: "string \<Rightarrow> string" where
  "keywords_prompt script_content = keywords_prompt_head @ script_content @ keywords_prompt_tail"



definition extract_keywords :: "env \<Rightarrow> string \<Rightarrow> exn + string" where
  "extract_keywords e script_content =
     first_final (run_async e ''keyword_agent'' ''keyword_session'' (keywords_prompt script_content))"

subsection \<open>Stage 3: placeholder images\<close>









subsection \<open>\<^verbatim>\<open>run_complete_pipeline\<close>\<close>

text \<open>The dictionary the pipeline returns; its entry \<^verbatim>\<open>"keywords"\<close> is the field
  \<open>keywords_response\<close>.\<close>

record pipeline_result =
  script :: string
  keywords_response :: string
  generated_files :: "string list"
  images_folder :: string


section \<open>Module start: the credential check\<close>

text \<open>All three modules begin, after their imports, with
  \<^verbatim>\<open>load_dotenv()\<close> and \<^verbatim>\<open>assert os.getenv("GOOGLE_API_KEY"), "Set GOOGLE_API_KEY in .env"\<close>;
  then they build their agents and, when run as a script, call \<^verbatim>\<open>main\<close>.
  The model starts after the imports. A process started with \<^verbatim>\<open>-O\<close> (or with
  \<^verbatim>\<open>PYTHONOPTIMIZE\<close> set) is \<open>optimized\<close>: its \<^verbatim>\<open>assert\<close> statements are removed.

  What python-dotenv makes of the \<^verbatim>\<open>.env\<close> file is either the exception that
  \<^verbatim>\<open>load_dotenv()\<close> raises (the file cannot be read or decoded, or the system
  refuses one of its variables), or the list of the file's bindings in file
  order, after parsing and interpolation: a line \<^verbatim>\<open>KEY=value\<close> binds the key to
  \<open>Some value\<close>, a line \<^verbatim>\<open>KEY\<close> without \<^verbatim>\<open>=\<close> binds it to \<open>None\<close>. No file is the
  empty list. python-dotenv reads the bindings into a dictionary, so for a key
  bound twice the last binding counts; \<^verbatim>\<open>load_dotenv()\<close> (with its default
  \<^verbatim>\<open>override=False\<close>) then walks the dictionary and sets each variable that the
  process does not have yet and whose value is not \<^verbatim>\<open>None\<close>.\<close>

datatype module = Autonomous_agent | Script_agent | Complete_script_img_agent

record process =
  optimized :: bool
  os_environ :: "(string \<times> string) list"
  agents :: "string list"
  main_started :: bool

type_synonym bindings = "(string \<times> string option) list"

text \<open>The dictionary python-dotenv builds from the bindings: a key keeps the place of
  its first binding and the value of its last.\<close>

definition dotenv_dict :: "bindings \<Rightarrow> bindings" where
  "dotenv_dict dotenv = foldl (\<lambda>d kv. AList.update (fst kv) (snd kv) d) [] dotenv"

text \<open>\<^verbatim>\<open>dotenv_values().get(k)\<close>: what the file gives for a key, \<^verbatim>\<open>None\<close> for a key
  it does not bind and for a key it binds to no value.\<close>

definition dotenv_values :: "bindings \<Rightarrow> string \<Rightarrow> string option" where
  "dotenv_values dotenv k = (case map_of (dotenv_dict dotenv) k of Some v \<Rightarrow> v | None \<Rightarrow> None)"

text \<open>The loop of python-dotenv over the items of the dictionary:
  \<^verbatim>\<open>if k in os.environ: continue\<close>, then \<^verbatim>\<open>if v is not None: os.environ[k] = v\<close>.\<close>

fun set_as_environment_variables :: "bindings \<Rightarrow> (string \<times> string) list \<Rightarrow> (string \<times> string) list" where
  "set_as_environment_variables [] vars = vars"
| "set_as_environment_variables (kv # d) vars =
     set_as_environment_variables d
       (if map_of vars (fst kv) \<noteq> None then vars
        else (case snd kv of None \<Rightarrow> vars | Some v \<Rightarrow> vars @ [(fst kv, v)]))"

definition load_dotenv :: "exn + bindings \<Rightarrow> (string \<times> string) list \<Rightarrow> exn + (string \<times> string) list" where
  "load_dotenv dotenv vars =
     (case dotenv of
        Inl ex \<Rightarrow> Inl ex
      | Inr bs \<Rightarrow> Inr (set_as_environment_variables (dotenv_dict bs) vars))"

text \<open>The truth value of what \<^verbatim>\<open>os.getenv\<close> returns: \<^verbatim>\<open>None\<close> and the empty string
  are false.\<close>

definition truthy :: "string option \<Rightarrow> bool" where
  "truthy v = (case v of None \<Rightarrow> False | Some s \<Rightarrow> s \<noteq> [])"

fun module_agents :: "module \<Rightarrow> string list" where
  "module_agents Autonomous_agent = [''video_creator_agent'']"
| "module_agents Script_agent = [''gemini_agent'']"
| "module_agents Complete_script_img_agent = [''script_agent'', ''keyword_agent'']"

definition load_module ::
  "module \<Rightarrow> bool \<Rightarrow> exn + bindings \<Rightarrow> process \<Rightarrow> exn option \<times> process" where
  "load_module m as_main dotenv p =
     (case load_dotenv dotenv (os_environ p) of
        Inl ex \<Rightarrow> (Some ex, p)
      | Inr vars \<Rightarrow>
          (let p1 = p\<lparr>os_environ := vars\<rparr>
           in if optimized p1 \<or> truthy (os_getenv (os_environ p1) ''GOOGLE_API_KEY'')
              then (None, p1\<lparr>agents := agents p1 @ module_agents m, main_started := as_main\<rparr>)
              else (Some (AssertionError ''Set GOOGLE_API_KEY in .env''), p1)))"


section \<open>Notions the properties are stated with\<close>

text \<open>A tool result with exactly the given fields, in order.\<close>

definition has_keys :: "json \<Rightarrow> string list \<Rightarrow> bool" where
  "has_keys doc ks = (case doc of JObj kvs \<Rightarrow> map fst kvs = ks | _ \<Rightarrow> False)"



text \<open>Leading numbering: the text up to and including the first period.\<close>

definition numbering_stripped :: "string \<Rightarrow> string" where
  "numbering_stripped line = tl (dropWhile (\<lambda>c. c \<noteq> CHR ''.'') line)"

text \<open>What one line of the model's response contributes to the content points: nothing
  when it is blank or contains one of the three phrases in any capitalisation;
  otherwise the line without surrounding white space, without its leading
  numbering when a period followed by a space stands among its first five
  characters, and only when something is left.\<close>

definition kept_line :: "string \<Rightarrow> string option" where
  "kept_line raw =
     (let line = py_strip raw
      in if line = [] \<or> (\<exists>phrase \<in> set banned_phrases. py_in phrase (py_lower line))
         then None
         else (let out = (if py_in ''. '' (take 5 line)
                          then py_strip (numbering_stripped line) else line)
               in if out = [] then None else Some out))"



section \<open>Concrete environments\<close>

text \<open>What \<^verbatim>\<open>json.loads\<close> raises on text that does not start a JSON value.\<close>

definition decode_error :: exn where
  "decode_error = JSONDecodeError ''Expecting value: line 1 column 1 (char 0)''"

text \<open>An environment in which everything outside the repository works: the package
  imports, the model answers with a numbered list between two lines of chatter,
  and no file operation fails.\<close>

definition example_env :: env where
  "example_env =
     \<lparr> int_max_str_digits = 4300,
       hash_str = (\<lambda>s. - (int (length s) * 123456789)),
       import_genai = None,
       GenerativeModel = (\<lambda>name. None),
       generate_content = (\<lambda>name prompt.
         Inr ''Here are the points:\<newline>1. Cells divide.\<newline>\<newline>  2. DNA is copied. \<newline>Need any more?''),
       random_draw = (\<lambda>i. 7 * i + 30),
       mkdir_raises = (\<lambda>path. None),
       open_raises = (\<lambda>path. None),
       write_raises = (\<lambda>path d. None),
       json_loads = (\<lambda>s. Inl decode_error),
       path_join = (\<lambda>folder name. folder @ ''/'' @ name),
       create_session = (\<lambda>session_id. None),
       run_async = (\<lambda>agent session_id prompt. []) \<rparr>"

definition empty_world :: world where
  "empty_world = \<lparr> dirs = {}, files = Map.empty \<rparr>"

text \<open>Final answers an agent may give: a script, keyword payloads of several
  shapes, and a sentence that is not JSON.\<close>

definition demo_script :: string where
  \<open>demo_script = ''{"scenes": [{"title": "Intro", "content": ["Meet the mitochondria."]}]}''\<close>

definition one_keyword_answer :: string where
  \<open>one_keyword_answer = ''{"keywords": ["mitochondria"]}''\<close>

definition two_keywords_answer :: string where
  \<open>two_keywords_answer = ''{"keywords": ["cell membrane", "ATP"]}''\<close>




text \<open>The same environment with the two agents' final answers fixed, the script
  agent's after one event that is not final, and with what \<^verbatim>\<open>json.loads\<close> makes of
  the keyword agent's answer.\<close>

definition answers_env :: "string \<Rightarrow> string \<Rightarrow> exn + json \<Rightarrow> env" where
  "answers_env script_answer keywords_answer parsed =
     example_env
       \<lparr> json_loads := (\<lambda>s. if s = keywords_answer then parsed else Inl decode_error),
         run_async := (\<lambda>agent session_id prompt.
           if agent = ''script_agent''
           then [Yield False (Inr []), Yield True (Inr script_answer)]
           else [Yield True (Inr keywords_answer)]) \<rparr>"

text \<open>The package \<^verbatim>\<open>google.generativeai\<close> is not installed.\<close>

definition no_genai_env :: env where
  "no_genai_env =
     example_env \<lparr> import_genai :=
       Some (ModuleNotFoundError (''No module named '' @ [CHR 0x27] @ ''google.generativeai'' @ [CHR 0x27])) \<rparr>"




text \<open>A runner whose stream ends without a final response.\<close>

definition no_final_env :: env where
  "no_final_env =
     example_env \<lparr> run_async := (\<lambda>agent session_id prompt.
       [Yield False (Inr ''Let me think.''), Yield False (Inr [])]) \<rparr>"


section \<open>Properties of the library functions\<close>





lemma replace_ne_skip:
  "old \<noteq> [] \<Longrightarrow> hd old \<notin> set pre \<Longrightarrow>
   replace_ne old new (pre @ rest) = pre @ replace_ne old new rest"
proof (induction pre)
  case Nil
  then show ?case by simp
next
  case (Cons c pre)
  from Cons.prems have "\<not> prefix old (c # pre @ rest)"
    by (cases old) auto
  with Cons show ?case by simp
qed

lemma digit_char_range: "d < 10 \<Longrightarrow> digit_char d \<in> set ''0123456789''"
proof -
  assume "d < 10"
  then have "d \<in> {0, 1, 2, 3, 4, 5, 6, 7, 8, 9}" by auto
  then show ?thesis
    by (auto simp: digit_char_def char_of_eq_iff)
qed

lemma digits_range: "set (digits n) \<subseteq> set ''0123456789''"
proof (induction n rule: digits.induct)
  case (1 n)
  show ?case
  proof (cases "n < 10")
    case True
    then show ?thesis
      using digit_char_range [of n] by (subst digits.simps) simp
  next
    case False
    then have "set (digits (n div 10)) \<subseteq> set ''0123456789''" using 1 by simp
    moreover have "digit_char (n mod 10) \<in> set ''0123456789''"
      by (rule digit_char_range) simp
    ultimately show ?thesis
      using False by (subst digits.simps) simp
  qed
qed

lemma decimal_no_dot: "CHR ''.'' \<notin> set (decimal i)"
  using digits_range [of "nat i"] digits_range [of "nat (- i)"]
  by (auto simp: decimal_def)

text \<open>
  Python converts an integer exactly when there is no limit or the integer is
  below the power of ten the limit stands for; an integer of at most 640 digits is
  always converted.
\<close>

lemma digits_nonempty: "digits n \<noteq> []"
  by (subst digits.simps) simp

lemma digits_length: "0 < k \<Longrightarrow> length (digits n) \<le> k \<longleftrightarrow> n < 10 ^ k"
proof (induction n arbitrary: k rule: digits.induct)
  case (1 n)
  show ?case
  proof (cases "n < 10")
    case True
    have "(10::nat) ^ 1 \<le> 10 ^ k"
      using 1(2) by (intro power_increasing) simp_all
    with True have "n < 10 ^ k" by simp
    moreover have "length (digits n) = 1"
      using True by (subst digits.simps) simp
    ultimately show ?thesis using 1(2) by simp
  next
    case False
    have len: "length (digits n) = Suc (length (digits (n div 10)))"
      using False by (subst digits.simps) simp
    show ?thesis
    proof (cases k)
      case 0
      with 1(2) show ?thesis by simp
    next
      case (Suc j)
      show ?thesis
      proof (cases "j = 0")
        case True
        with Suc False len digits_nonempty [of "n div 10"] show ?thesis by simp
      next
        case jpos: False
        then have "length (digits (n div 10)) \<le> j \<longleftrightarrow> n div 10 < 10 ^ j"
          using 1(1) [OF False, of j] by simp
        moreover have "n div 10 < 10 ^ j \<longleftrightarrow> n < 10 ^ Suc j"
          by (simp add: div_less_iff_less_mult mult.commute)
        ultimately show ?thesis using Suc len by simp
      qed
    qed
  qed
qed

lemma str_int_converts:
  "str_int e i = Inr (decimal i) \<longleftrightarrow>
     int_max_str_digits e = 0 \<or> \<bar>i\<bar> < 10 ^ str_limit e"
proof -
  have pos: "0 < str_limit e" by (simp add: str_limit_def)
  have "length (digits (nat \<bar>i\<bar>)) \<le> str_limit e \<longleftrightarrow> nat \<bar>i\<bar> < 10 ^ str_limit e"
    by (rule digits_length [OF pos])
  also have "\<dots> \<longleftrightarrow> \<bar>i\<bar> < 10 ^ str_limit e"
    by (simp add: nat_less_iff)
  finally show ?thesis
    by (auto simp: str_int_def)
qed

lemma str_int_Inr: "str_int e i = Inr s \<Longrightarrow> s = decimal i"
  by (auto simp: str_int_def split: if_splits)

lemma str_int_small: "\<bar>i\<bar> < 10 ^ 640 \<Longrightarrow> str_int e i = Inr (decimal i)"
proof -
  assume small: "\<bar>i\<bar> < 10 ^ 640"
  have "(10::int) ^ 640 \<le> 10 ^ str_limit e"
    by (intro power_increasing) (simp_all add: str_limit_def)
  with small have "\<bar>i\<bar> < 10 ^ str_limit e" by linarith
  then show ?thesis by (simp add: str_int_converts)
qed

lemma str_int_refuses:
  assumes "0 < int_max_str_digits e" and "10 ^ str_limit e \<le> \<bar>i\<bar>"
  shows "str_int e i =
     Inl (ValueError (''Exceeds the limit ('' @ decimal (int (str_limit e))
            @ '' digits) for integer string conversion; ''
            @ ''use sys.set_int_max_str_digits() to increase the limit''))"
proof -
  have pos: "0 < str_limit e" by (simp add: str_limit_def)
  have "\<not> nat \<bar>i\<bar> < 10 ^ str_limit e"
    using assms(2) by (simp add: nat_less_iff)
  then have "str_limit e < length (digits (nat \<bar>i\<bar>))"
    using digits_length [OF pos, of "nat \<bar>i\<bar>"] by simp
  with assms(1) show ?thesis by (simp add: str_int_def)
qed

lemma example_limit:
  "str_int example_env (10 ^ 4300) =
     Inl (ValueError (''Exceeds the limit (4300 digits) for integer string conversion; ''
            @ ''use sys.set_int_max_str_digits() to increase the limit''))"
proof -
  have lim: "str_limit example_env = 4300" "0 < int_max_str_digits example_env"
    by (simp_all add: str_limit_def example_env_def)
  have big: "(10::int) ^ str_limit example_env \<le> \<bar>10 ^ 4300\<bar>"
    unfolding lim(1) by (simp only: power_abs abs_numeral order_refl)
  have dec: "decimal (int (str_limit example_env)) = ''4300''"
    unfolding lim(1) by (simp add: decimal_def digits.simps digit_char_def char_of_eq_iff)
  show ?thesis
    using str_int_refuses [OF lim(2) big] unfolding dec
    by (simp only: append_Cons append_Nil)
qed

lemma py_in_set: "py_in sub s \<Longrightarrow> set sub \<subseteq> set s"
proof (induction s)
  case Nil
  then show ?case by simp
next
  case (Cons c s)
  from Cons.prems have "prefix sub (c # s) \<or> py_in sub s" by simp
  then show ?case
  proof
    assume "prefix sub (c # s)"
    then show ?thesis by (rule set_mono_prefix)
  next
    assume "py_in sub s"
    then have "set sub \<subseteq> set s" by (rule Cons.IH)
    then show ?thesis by auto
  qed
qed

lemma py_in_appendI: "py_in sub t \<Longrightarrow> py_in sub (s @ t)"
  by (induction s) auto

lemma py_in_prefixI: "prefix sub s \<Longrightarrow> py_in sub s"
  by (cases s) auto

lemma py_slice_to_subset: "set (py_slice_to n xs) \<subseteq> set xs"
  by (auto simp: py_slice_to_def dest: in_set_takeD)

lemma py_slice_to_length: "0 \<le> n \<Longrightarrow> int (length (py_slice_to n xs)) \<le> n"
  by (simp add: py_slice_to_def)

text \<open>
  A file block in which nothing fails leaves exactly the chunks written, in order;
  whether a block fails depends on the environment and the path only.
\<close>

lemma write_chunks_ok:
  "\<forall>d \<in> set ds. write_raises e path d = None \<Longrightarrow> files w path = Some old \<Longrightarrow>
   write_chunks e path ds w = (None, w\<lparr>files := (files w)(path \<mapsto> old @ concat ds)\<rparr>)"
proof (induction ds arbitrary: w old)
  case Nil
  then have "(files w)(path \<mapsto> old) = files w" by (simp add: map_upd_triv)
  then show ?case by simp
next
  case (Cons d ds)
  let ?w = "w\<lparr>files := (files w)(path \<mapsto> old @ d)\<rparr>"
  have step: "write_chunks e path (d # ds) w = write_chunks e path ds ?w"
    using Cons.prems by simp
  have ih: "write_chunks e path ds ?w = (None, ?w\<lparr>files := (files ?w)(path \<mapsto> (old @ d) @ concat ds)\<rparr>)"
    by (rule Cons.IH) (use Cons.prems in simp_all)
  have same: "?w\<lparr>files := (files ?w)(path \<mapsto> (old @ d) @ concat ds)\<rparr>
      = w\<lparr>files := (files w)(path \<mapsto> old @ concat (d # ds))\<rparr>"
    by simp
  show ?case by (simp only: step ih same)
qed

lemma with_open_w_ok:
  "open_raises e path = None \<Longrightarrow> \<forall>d \<in> set ds. write_raises e path d = None \<Longrightarrow>
   with_open_w e path ds w = (None, w\<lparr>files := (files w)(path \<mapsto> concat ds)\<rparr>)"
  using write_chunks_ok [of ds e path "w\<lparr>files := (files w)(path \<mapsto> [])\<rparr>" "[]"]
  by (simp add: with_open_w_def)



lemma with_open_w_cases:
  obtains ex w' where "with_open_w e path ds w = (Some ex, w')"
  | w' where "with_open_w e path ds w = (None, w')"
  by (cases "with_open_w e path ds w") (metis option.exhaust prod.collapse fst_conv)

lemma try_tool_doc:
  "\<exists>doc. try_tool body = dumps doc
     \<and> ((\<exists>d. body = Inr d \<and> doc = d) \<or> (\<exists>ex. body = Inl ex \<and> doc = error_doc ex))"
  by (cases body) (simp_all add: try_tool_def del: dumps.simps)

section \<open>The tools of \<^verbatim>\<open>autonomous_agent.py\<close>\<close>

subsection \<open>\<^verbatim>\<open>search_stock_video\<close>\<close>


lemma video_id_converts: "str_int e (video_id e query) = Inr (decimal (video_id e query))"
proof (rule str_int_small)
  have "0 \<le> video_id e query" "video_id e query < 10000000"
    by (simp_all add: video_id_def)
  then have "\<bar>video_id e query\<bar> < 10 ^ 7" by simp
  also have "(10::int) ^ 7 \<le> 10 ^ 640"
    by (intro power_increasing) simp_all
  finally show "\<bar>video_id e query\<bar> < 10 ^ 640" .
qed



subsection \<open>\<^verbatim>\<open>generate_audio_file\<close>\<close>

lemma random_choice_in: "seq \<noteq> [] \<Longrightarrow> random_choice e i seq \<in> set seq"
  by (simp add: random_choice_def)

lemma random_chars_alphabet: "set (random_chars e) \<subseteq> set audio_alphabet"
proof -
  have "audio_alphabet \<noteq> []" by (simp add: audio_alphabet_def)
  then show ?thesis
    by (auto simp: random_chars_def dest: random_choice_in)
qed

lemma random_chars_length: "length (random_chars e) = 4"
  by (simp add: random_chars_def)

lemma random_chars_no_dot: "CHR ''.'' \<notin> set (random_chars e)"
proof -
  have "CHR ''.'' \<notin> set audio_alphabet" by (simp add: audio_alphabet_def)
  then show ?thesis using random_chars_alphabet [of e] by blast
qed

lemma audio_filename_Inr:
  "audio_filename e index = Inr filename \<Longrightarrow>
   filename = ''static/audio/'' @ decimal index @ ''_'' @ random_chars e @ ''.mp3''"
  by (auto simp: audio_filename_def split: sum.splits dest: str_int_Inr)

lemma audio_txt_path:
  "py_replace ''.mp3'' ''.txt'' (''static/audio/'' @ decimal index @ ''_'' @ random_chars e @ ''.mp3'') =
     ''static/audio/'' @ decimal index @ ''_'' @ random_chars e @ ''.txt''"
proof -
  let ?pre = "''static/audio/'' @ decimal index @ ''_'' @ random_chars e"
  have nodot: "hd ''.mp3'' \<notin> set ?pre"
    using decimal_no_dot [of index] random_chars_no_dot [of e] by simp
  have "replace_ne ''.mp3'' ''.txt'' (?pre @ ''.mp3'') = ?pre @ replace_ne ''.mp3'' ''.txt'' ''.mp3''"
    by (rule replace_ne_skip [OF _ nodot]) simp
  moreover have "replace_ne ''.mp3'' ''.txt'' ''.mp3'' = ''.txt''" by simp
  ultimately show ?thesis
    by (simp add: py_replace_def)
qed

lemma generate_audio_file_unformattable:
  "mkdir_raises e ''static/audio'' = None \<Longrightarrow> str_int e index = Inl ex \<Longrightarrow>
   generate_audio_file e text_in index w =
     (Inr (dumps (error_doc ex)), w\<lparr>dirs := dirs w \<union> {''static'', ''static/audio''}\<rparr>)"
  by (simp add: generate_audio_file_def audio_filename_def try_tool_def del: dumps.simps)

lemma generate_audio_file_huge_index:
  "fst (generate_audio_file example_env text_in (10 ^ 4300) w) =
     Inr (dumps (error_doc (ValueError
       (''Exceeds the limit (4300 digits) for integer string conversion; ''
          @ ''use sys.set_int_max_str_digits() to increase the limit''))))"
proof -
  have "mkdir_raises example_env ''static/audio'' = None"
    by (simp add: example_env_def)
  from generate_audio_file_unformattable [OF this example_limit, of text_in w]
  show ?thesis by (simp only: fst_conv)
qed

text \<open>
  Claim C10. A call of \<^verbatim>\<open>generate_audio_file\<close> succeeds when the directory is
  created, the file name is built (the interpreter converts \<^verbatim>\<open>index\<close>: an index of
  more digits than its limit raises inside the \<^verbatim>\<open>try\<close> and gives an \<^verbatim>\<open>error\<close>
  object, see \<open>generate_audio_file_unformattable\<close>), the placeholder file is opened
  and both writes go through. A successful call returns the serialised object whose
  \<^verbatim>\<open>text\<close> field is the input text and whose \<^verbatim>\<open>audio_file\<close> field is
  \<^verbatim>\<open>static/audio/{index}_CCCC.mp3\<close> with four characters \<^verbatim>\<open>CCCC\<close> from the
  upper-case letters and digits; the file written is that path with \<^verbatim>\<open>.txt\<close> in
  place of \<^verbatim>\<open>.mp3\<close>, it holds the two placeholder lines, and the call leaves the
  \<^verbatim>\<open>.mp3\<close> path as it was.
\<close>

theorem generate_audio_file_success:
  assumes "mkdir_raises e ''static/audio'' = None"
    and "audio_filename e index = Inr filename"
    and "open_raises e (py_replace ''.mp3'' ''.txt'' filename) = None"
    and "\<forall>d \<in> set (audio_placeholder text_in).
           write_raises e (py_replace ''.mp3'' ''.txt'' filename) d = None"
  shows "\<exists>cs w'. length cs = 4 \<and> set cs \<subseteq> set audio_alphabet
           \<and> generate_audio_file e text_in index w =
               (Inr (dumps (JObj [(''audio_file'', JStr (''static/audio/'' @ decimal index @ ''_'' @ cs @ ''.mp3'')),
                                  (''text'', JStr text_in)])), w')
           \<and> files w' = (files w)(''static/audio/'' @ decimal index @ ''_'' @ cs @ ''.txt''
                                   \<mapsto> concat (audio_placeholder text_in))
           \<and> files w' (''static/audio/'' @ decimal index @ ''_'' @ cs @ ''.mp3'')
               = files w (''static/audio/'' @ decimal index @ ''_'' @ cs @ ''.mp3'')"
proof -
  let ?cs = "random_chars e"
  let ?mp3 = "''static/audio/'' @ decimal index @ ''_'' @ ?cs @ ''.mp3''"
  let ?txt = "''static/audio/'' @ decimal index @ ''_'' @ ?cs @ ''.txt''"
  let ?w1 = "w\<lparr>dirs := dirs w \<union> {''static'', ''static/audio''}\<rparr>"
  let ?w' = "?w1\<lparr>files := (files ?w1)(?txt \<mapsto> concat (audio_placeholder text_in))\<rparr>"
  have name: "filename = ?mp3"
    using assms(2) by (rule audio_filename_Inr)
  have path: "py_replace ''.mp3'' ''.txt'' filename = ?txt"
    unfolding name by (rule audio_txt_path)
  have written: "with_open_w e ?txt (audio_placeholder text_in) ?w1 = (None, ?w')"
    by (rule with_open_w_ok) (use assms(3,4) path in simp_all)
  have run: "generate_audio_file e text_in index w =
      (Inr (dumps (JObj [(''audio_file'', JStr ?mp3), (''text'', JStr text_in)])), ?w')"
    unfolding generate_audio_file_def Let_def assms(1) assms(2) option.case sum.case path
    using written name
    by (simp add: try_tool_def del: dumps.simps)
  have other: "files ?w' ?mp3 = files w ?mp3"
    by simp
  have "files ?w' = (files w)(?txt \<mapsto> concat (audio_placeholder text_in))" by simp
  with run other random_chars_length [of e] random_chars_alphabet [of e]
  show ?thesis by blast
qed

theorem generate_audio_file_success_witness:
  "(\<exists>cs w'. length cs = 4 \<and> set cs \<subseteq> set audio_alphabet
       \<and> generate_audio_file example_env ''Cells divide.'' 3 empty_world =
           (Inr (dumps (JObj [(''audio_file'', JStr (''static/audio/'' @ decimal 3 @ ''_'' @ cs @ ''.mp3'')),
                              (''text'', JStr ''Cells divide.'')])), w')
       \<and> files w' = (files empty_world)(''static/audio/'' @ decimal 3 @ ''_'' @ cs @ ''.txt''
                               \<mapsto> concat (audio_placeholder ''Cells divide.''))
       \<and> files w' (''static/audio/'' @ decimal 3 @ ''_'' @ cs @ ''.mp3'')
           = files empty_world (''static/audio/'' @ decimal 3 @ ''_'' @ cs @ ''.mp3''))
   \<and> fst (generate_audio_file example_env ''Cells divide.'' 3 empty_world)
       = Inr ''{\"audio_file\": \"static/audio/3_4BIP.mp3\", \"text\": \"Cells divide.\"}''"
proof
  have built: "audio_filename example_env 3 = Inr ''static/audio/3_4BIP.mp3''"
    by code_simp
  show "\<exists>cs w'. length cs = 4 \<and> set cs \<subseteq> set audio_alphabet
       \<and> generate_audio_file example_env ''Cells divide.'' 3 empty_world =
           (Inr (dumps (JObj [(''audio_file'', JStr (''static/audio/'' @ decimal 3 @ ''_'' @ cs @ ''.mp3'')),
                              (''text'', JStr ''Cells divide.'')])), w')
       \<and> files w' = (files empty_world)(''static/audio/'' @ decimal 3 @ ''_'' @ cs @ ''.txt''
                               \<mapsto> concat (audio_placeholder ''Cells divide.''))
       \<and> files w' (''static/audio/'' @ decimal 3 @ ''_'' @ cs @ ''.mp3'')
           = files empty_world (''static/audio/'' @ decimal 3 @ ''_'' @ cs @ ''.mp3'')"
    by (rule generate_audio_file_success [OF _ built]) (simp_all add: example_env_def)
  show "fst (generate_audio_file example_env ''Cells divide.'' 3 empty_world)
       = Inr ''{\"audio_file\": \"static/audio/3_4BIP.mp3\", \"text\": \"Cells divide.\"}''"
    by code_simp
qed

subsection \<open>\<^verbatim>\<open>generate_video_content\<close>\<close>

lemma split1_numbering:
  assumes "py_in ''. '' (take 5 line)"
  shows "last (py_split1 (CHR ''.'') line) = numbering_stripped line"
proof -
  from assms have "CHR ''.'' \<in> set (take 5 line)"
    using py_in_set by fastforce
  then have "CHR ''.'' \<in> set line"
    by (rule in_set_takeD)
  then have "dropWhile (\<lambda>c. c \<noteq> CHR ''.'') line \<noteq> []"
    by simp
  then obtain x rest where "dropWhile (\<lambda>c. c \<noteq> CHR ''.'') line = x # rest"
    by (cases "dropWhile (\<lambda>c. c \<noteq> CHR ''.'') line") auto
  then show ?thesis
    by (simp add: py_split1_def numbering_stripped_def)
qed

lemma clean_line_kept:
  "clean_line acc raw = acc @ (case kept_line raw of None \<Rightarrow> [] | Some x \<Rightarrow> [x])"
  by (simp add: clean_line_def kept_line_def Let_def list_ex_iff split1_numbering)

lemma clean_loop_kept: "clean_loop acc raws = acc @ List.map_filter kept_line raws"
  by (induction raws arbitrary: acc)
     (simp_all add: clean_line_kept map_filter_simps split: option.split)

lemma kept_line_nonempty: "kept_line raw = Some x \<Longrightarrow> x \<noteq> []"
  by (auto simp: kept_line_def Let_def split: if_splits)

lemma map_filter_kept_nonempty: "x \<in> set (List.map_filter kept_line raws) \<Longrightarrow> x \<noteq> []"
  by (auto simp: List.map_filter_def dest: kept_line_nonempty)

lemma content_points_kept:
  "content_points response_text scene_count =
     py_slice_to scene_count (List.map_filter kept_line (py_split (CHR 0x0A) response_text))"
  by (simp add: content_points_def clean_loop_kept)

lemma content_points_example: "content_points ''Here are the points:\<newline>1. Cells divide.\<newline>\<newline>  2. DNA is copied. \<newline>Need any more?'' 7
    = [''Cells divide.'', ''DNA is copied.'']"
  by code_simp

lemma generate_video_content_unformattable:
  "import_genai e = None \<Longrightarrow> GenerativeModel e ''gemini-2.0-flash'' = None \<Longrightarrow>
   str_int e scene_count = Inl ex \<Longrightarrow>
   generate_video_content e topic scene_count = Inr (dumps (error_doc ex))"
  by (simp add: generate_video_content_def video_prompt_def try_tool_def del: dumps.simps)

lemma generate_video_content_huge_count:
  "generate_video_content example_env topic (10 ^ 4300) =
     Inr (dumps (error_doc (ValueError
       (''Exceeds the limit (4300 digits) for integer string conversion; ''
          @ ''use sys.set_int_max_str_digits() to increase the limit''))))"
proof -
  have "import_genai example_env = None" "GenerativeModel example_env ''gemini-2.0-flash'' = None"
    by (simp_all add: example_env_def)
  from generate_video_content_unformattable [OF this example_limit]
  show ?thesis .
qed

text \<open>
  Claim C6, as amended. When the package is imported, the model object is built,
  the prompt is built (the interpreter converts \<^verbatim>\<open>scene_count\<close>: a scene count of
  more digits than its limit raises inside the \<^verbatim>\<open>try\<close> and gives an \<^verbatim>\<open>error\<close>
  object, see \<open>generate_video_content_unformattable\<close>) and the model answers with
  \<open>response_text\<close>, \<^verbatim>\<open>generate_video_content\<close> returns the
  serialised object whose \<^verbatim>\<open>content_points\<close> are the slice \<^verbatim>\<open>[:scene_count]\<close> of what
  the lines of the response contribute, line by line as \<open>kept_line\<close> says (a line is
  read after removing surrounding white space; a line with one of the three
  phrases is dropped; leading numbering is removed). Every element is a non-empty
  string, and for a scene count that is not negative there are at most
  \<open>scene_count\<close> of them.
\<close>

theorem generate_video_content_points:
  assumes "import_genai e = None"
    and "GenerativeModel e ''gemini-2.0-flash'' = None"
    and "video_prompt e topic scene_count = Inr prompt"
    and "generate_content e ''gemini-2.0-flash'' prompt = Inr response_text"
  shows "generate_video_content e topic scene_count =
           Inr (dumps (JObj [(''content_points'',
                              JArr (map JStr (content_points response_text scene_count)))]))
         \<and> content_points response_text scene_count =
             py_slice_to scene_count
               (List.map_filter kept_line (py_split (CHR 0x0A) response_text))
         \<and> (0 \<le> scene_count \<longrightarrow>
              int (length (content_points response_text scene_count)) \<le> scene_count)
         \<and> (\<forall>x \<in> set (content_points response_text scene_count). x \<noteq> [])"
proof -
  have run: "generate_video_content e topic scene_count =
      Inr (dumps (JObj [(''content_points'',
                         JArr (map JStr (content_points response_text scene_count)))]))"
    unfolding generate_video_content_def try_tool_def by (simp only: assms option.case sum.case)
  have bound: "0 \<le> scene_count \<longrightarrow>
      int (length (content_points response_text scene_count)) \<le> scene_count"
    by (simp add: content_points_def py_slice_to_length)
  have nonempty: "\<forall>x \<in> set (content_points response_text scene_count). x \<noteq> []"
  proof
    fix x
    assume "x \<in> set (content_points response_text scene_count)"
    then have "x \<in> set (py_slice_to scene_count
        (List.map_filter kept_line (py_split (CHR 0x0A) response_text)))"
      by (simp only: content_points_kept)
    with py_slice_to_subset
    have "x \<in> set (List.map_filter kept_line (py_split (CHR 0x0A) response_text))"
      by (rule subsetD)
    then show "x \<noteq> []" by (rule map_filter_kept_nonempty)
  qed
  show ?thesis
    by (intro conjI) (fact run, fact content_points_kept, fact bound, fact nonempty)
qed

theorem generate_video_content_points_witness:
  "generate_video_content example_env ''cells'' 7 =
     Inr ''{\"content_points\": [\"Cells divide.\", \"DNA is copied.\"]}''
   \<and> int (length (content_points ''Here are the points:\<newline>1. Cells divide.\<newline>\<newline>  2. DNA is copied. \<newline>Need any more?'' 7)) \<le> 7"
proof -
  have "import_genai example_env = None" "GenerativeModel example_env ''gemini-2.0-flash'' = None"
    "video_prompt example_env ''cells'' 7
       = Inr (''Write 7 concise educational points about '' @ [CHR 0x27] @ ''cells'' @ [CHR 0x27]
              @ ''. Each point should be 1-2 sentences suitable for a video script.'')"
    "generate_content example_env ''gemini-2.0-flash''
       (''Write 7 concise educational points about '' @ [CHR 0x27] @ ''cells'' @ [CHR 0x27]
              @ ''. Each point should be 1-2 sentences suitable for a video script.'') =
       Inr ''Here are the points:\<newline>1. Cells divide.\<newline>\<newline>  2. DNA is copied. \<newline>Need any more?''"
    by (simp_all add: example_env_def video_prompt_def str_int_def str_limit_def decimal_def
        digits.simps digit_char_def char_of_eq_iff)
  note inst = generate_video_content_points [OF this]
  from inst [THEN conjunct1] inst [THEN conjunct2, THEN conjunct2, THEN conjunct1] content_points_example
  show ?thesis
    by (simp add: dumps_str_def escape_char_def)
qed

text \<open>
  Claim C6 as stated bounds the length by \<open>scene_count\<close> for every scene count. A
  negative bound of a Python slice counts from the end: with three lines and
  \<open>scene_count = -1\<close> two content points are returned.
\<close>

theorem content_points_negative_counterexample:
  "\<not> int (length (content_points ''a\<newline>b\<newline>c'' (- 1))) \<le> - 1"
  by code_simp

subsection \<open>The boundary of the tools\<close>

text \<open>
  What the \<^verbatim>\<open>try\<close> frames give: \<^verbatim>\<open>search_stock_video\<close> and \<^verbatim>\<open>generate_audio_file\<close>
  always return a serialised object, with the success fields or with the field
  \<^verbatim>\<open>error\<close>; \<^verbatim>\<open>generate_video_content\<close> does so once its import has succeeded, and
  raises the import's exception otherwise.
\<close>

lemma search_stock_video_returns:
  "\<exists>doc. search_stock_video e query = Inr (dumps doc) \<and> has_keys doc [''video'', ''poster'']"
  unfolding search_stock_video_def video_id_converts try_tool_def sum.case
  by (rule exI, rule conjI, rule refl) (simp add: has_keys_def)

lemma generate_audio_file_returns:
  "\<exists>doc. fst (generate_audio_file e text_in index w) = Inr (dumps doc)
     \<and> (has_keys doc [''audio_file'', ''text''] \<or> has_keys doc [''error''])"
proof -
  have "\<exists>body. fst (generate_audio_file e text_in index w) = Inr (try_tool body)
      \<and> (\<forall>d. body = Inr d \<longrightarrow> has_keys d [''audio_file'', ''text''])"
    by (auto simp: generate_audio_file_def Let_def has_keys_def
        split: option.splits sum.splits prod.splits)
  then obtain body where run: "fst (generate_audio_file e text_in index w) = Inr (try_tool body)"
    and ok: "\<forall>d. body = Inr d \<longrightarrow> has_keys d [''audio_file'', ''text'']"
    by blast
  obtain doc where doc: "try_tool body = dumps doc"
    and shape: "(\<exists>d. body = Inr d \<and> doc = d) \<or> (\<exists>ex. body = Inl ex \<and> doc = error_doc ex)"
    using try_tool_doc [of body] by blast
  have "has_keys (error_doc ex) [''error'']" for ex
    by (simp add: has_keys_def error_doc_def)
  with shape ok have "has_keys doc [''audio_file'', ''text''] \<or> has_keys doc [''error'']"
    by blast
  with run doc show ?thesis by auto
qed

lemma generate_video_content_returns:
  assumes "import_genai e = None"
  shows "\<exists>doc. generate_video_content e topic scene_count = Inr (dumps doc)
     \<and> (has_keys doc [''content_points''] \<or> has_keys doc [''error''])"
proof -
  have "\<exists>body. generate_video_content e topic scene_count = Inr (try_tool body)
      \<and> (\<forall>d. body = Inr d \<longrightarrow> has_keys d [''content_points''])"
    using assms
    by (auto simp: generate_video_content_def has_keys_def split: option.splits sum.splits)
  then obtain body where run: "generate_video_content e topic scene_count = Inr (try_tool body)"
    and ok: "\<forall>d. body = Inr d \<longrightarrow> has_keys d [''content_points'']"
    by blast
  obtain doc where doc: "try_tool body = dumps doc"
    and shape: "(\<exists>d. body = Inr d \<and> doc = d) \<or> (\<exists>ex. body = Inl ex \<and> doc = error_doc ex)"
    using try_tool_doc [of body] by blast
  have "has_keys (error_doc ex) [''error'']" for ex
    by (simp add: has_keys_def error_doc_def)
  with shape ok have "has_keys doc [''content_points''] \<or> has_keys doc [''error'']"
    by blast
  with run doc show ?thesis by auto
qed

lemma generate_video_content_import_fails:
  "import_genai e = Some ex \<Longrightarrow> generate_video_content e topic scene_count = Inl ex"
  by (simp add: generate_video_content_def)

text \<open>
  Claim C1 says that none of the three tools raises past its own boundary. In
  \<^verbatim>\<open>generate_video_content\<close> the import of \<^verbatim>\<open>google.generativeai\<close> stands before the
  \<^verbatim>\<open>try\<close>, unlike everything in the two other tools: where the package is not
  installed, the call raises \<^verbatim>\<open>ModuleNotFoundError\<close> instead of returning an
  \<^verbatim>\<open>error\<close> object.
\<close>

theorem generate_video_content_raises_without_genai:
  "generate_video_content no_genai_env ''powerhouse of the cell'' 7 =
     Inl (ModuleNotFoundError (''No module named '' @ [CHR 0x27] @ ''google.generativeai'' @ [CHR 0x27]))"
  by (simp add: generate_video_content_def no_genai_env_def example_env_def)

section \<open>Module start\<close>

lemma dotenv_dict_fold:
  "map_of (foldl (\<lambda>d kv. AList.update (fst kv) (snd kv) d) acc dotenv) k
     = (case map_of (rev dotenv) k of Some v \<Rightarrow> Some v | None \<Rightarrow> map_of acc k)"
proof (induction dotenv arbitrary: acc)
  case Nil
  then show ?case by simp
next
  case (Cons kv dotenv)
  have "map_of (AList.update (fst kv) (snd kv) acc) k
      = (if k = fst kv then Some (snd kv) else map_of acc k)"
    by (simp add: update_conv')
  with Cons [of "AList.update (fst kv) (snd kv) acc"] show ?case
    by (cases kv) (simp add: map_add_def split: option.split)
qed

lemma dotenv_dict_distinct: "distinct (map fst (dotenv_dict dotenv))"
proof -
  have "distinct (map fst acc) \<Longrightarrow>
      distinct (map fst (foldl (\<lambda>d kv. AList.update (fst kv) (snd kv) d) acc dotenv))" for acc
    by (induction dotenv arbitrary: acc) (simp_all add: distinct_update)
  from this [of "[]"] show ?thesis by (simp add: dotenv_dict_def)
qed

text \<open>For a key bound twice the last binding counts.\<close>

lemma dotenv_values_last:
  "dotenv_values dotenv k = (case map_of (rev dotenv) k of Some v \<Rightarrow> v | None \<Rightarrow> None)"
  by (simp add: dotenv_values_def dotenv_dict_def dotenv_dict_fold split: option.split)

lemma getenv_set_as_environment_variables:
  "distinct (map fst d) \<Longrightarrow>
   map_of (set_as_environment_variables d vars) k =
     (case map_of vars k of
        Some v \<Rightarrow> Some v
      | None \<Rightarrow> (case map_of d k of Some v \<Rightarrow> v | None \<Rightarrow> None))"
proof (induction d arbitrary: vars)
  case Nil
  then show ?case by (simp split: option.split)
next
  case (Cons kv d)
  from Cons.prems have fresh: "map_of d (fst kv) = None" and rest: "distinct (map fst d)"
    by (simp_all add: map_of_eq_None_iff)
  show ?case
    using Cons.IH [OF rest] fresh
    by (cases kv) (auto split: option.split)
qed

text \<open>After \<^verbatim>\<open>load_dotenv()\<close> a variable has the value the process had for it, or
  else the value the file gives.\<close>

lemma getenv_load_dotenv:
  "load_dotenv (Inr bs) vars = Inr vars' \<Longrightarrow>
   os_getenv vars' k =
     (case os_getenv vars k of Some v \<Rightarrow> Some v | None \<Rightarrow> dotenv_values bs k)"
  using getenv_set_as_environment_variables [OF dotenv_dict_distinct, of bs vars k]
  unfolding os_getenv_def load_dotenv_def dotenv_values_def by auto

text \<open>An exception of \<^verbatim>\<open>load_dotenv()\<close> ends the start before the assertion.\<close>

lemma load_module_dotenv_raises: "load_module m as_main (Inl ex) p = (Some ex, p)"
  by (simp add: load_module_def load_dotenv_def)

text \<open>
  Claim C8, as amended. Let \<^verbatim>\<open>load_dotenv()\<close> return, having read the bindings
  \<open>bs\<close>, and let the key be the value of \<^verbatim>\<open>GOOGLE_API_KEY\<close> in the process
  environment or, when the process has none, the value of its last binding in the
  \<^verbatim>\<open>.env\<close> file. In a process that runs with assertions (not started with \<^verbatim>\<open>-O\<close>
  or \<^verbatim>\<open>PYTHONOPTIMIZE\<close>): if there is no key or the key is the empty string, loading
  any of the three modules raises \<^verbatim>\<open>AssertionError\<close> with no agent built and
  \<^verbatim>\<open>main\<close> not started. If the key is a non-empty string, or the process runs
  without assertions, loading goes on: the module's agents are built and
  \<^verbatim>\<open>main\<close> starts when the module runs as a script.
\<close>

theorem load_module_credential:
  "(let key = (case os_getenv (os_environ p) ''GOOGLE_API_KEY'' of
                 Some v \<Rightarrow> Some v
               | None \<Rightarrow> dotenv_values bs ''GOOGLE_API_KEY'');
        p1 = p\<lparr>os_environ := set_as_environment_variables (dotenv_dict bs) (os_environ p)\<rparr>
    in (\<not> optimized p \<and> (key = None \<or> key = Some []) \<longrightarrow>
          load_module m as_main (Inr bs) p =
            (Some (AssertionError ''Set GOOGLE_API_KEY in .env''), p1)
          \<and> agents p1 = agents p \<and> main_started p1 = main_started p)
     \<and> (optimized p \<or> (\<exists>v. key = Some v \<and> v \<noteq> []) \<longrightarrow>
          load_module m as_main (Inr bs) p =
            (None, p1\<lparr>agents := agents p @ module_agents m, main_started := as_main\<rparr>)))"
proof -
  have loaded: "load_dotenv (Inr bs) (os_environ p)
      = Inr (set_as_environment_variables (dotenv_dict bs) (os_environ p))"
    by (simp add: load_dotenv_def)
  note key = getenv_load_dotenv [OF loaded, of "''GOOGLE_API_KEY''"]
  show ?thesis
    unfolding Let_def load_module_def loaded sum.case
    using key by (auto simp: truthy_def split: option.splits)
qed

theorem load_module_credential_witness:
  "load_module Complete_script_img_agent True
      (Inr [(''GOOGLE_API_KEY'', Some []), (''GOOGLE_API_KEY'', Some ''secret'')])
      \<lparr>optimized = False, os_environ = [(''HOME'', ''/root'')], agents = [], main_started = False\<rparr>
     = (None, \<lparr>optimized = False,
               os_environ = [(''HOME'', ''/root''), (''GOOGLE_API_KEY'', ''secret'')],
               agents = [''script_agent'', ''keyword_agent''], main_started = True\<rparr>)
   \<and> load_module Script_agent True (Inr [(''GOOGLE_API_KEY'', Some ''secret''), (''GOOGLE_API_KEY'', None)])
      \<lparr>optimized = False, os_environ = [(''HOME'', ''/root'')], agents = [], main_started = False\<rparr>
     = (Some (AssertionError ''Set GOOGLE_API_KEY in .env''),
        \<lparr>optimized = False, os_environ = [(''HOME'', ''/root'')],
         agents = [], main_started = False\<rparr>)
   \<and> load_module Autonomous_agent False (Inr [])
      \<lparr>optimized = True, os_environ = [(''HOME'', ''/root'')], agents = [], main_started = False\<rparr>
     = (None, \<lparr>optimized = True, os_environ = [(''HOME'', ''/root'')],
               agents = [''video_creator_agent''], main_started = False\<rparr>)"
  using load_module_credential
      [where p = "\<lparr>optimized = False, os_environ = [(''HOME'', ''/root'')], agents = [], main_started = False\<rparr>"
       and bs = "[(''GOOGLE_API_KEY'', Some []), (''GOOGLE_API_KEY'', Some ''secret'')]"
       and m = Complete_script_img_agent and as_main = True]
    load_module_credential
      [where p = "\<lparr>optimized = False, os_environ = [(''HOME'', ''/root'')], agents = [], main_started = False\<rparr>"
       and bs = "[(''GOOGLE_API_KEY'', Some ''secret''), (''GOOGLE_API_KEY'', None)]"
       and m = Script_agent and as_main = True]
    load_module_credential
      [where p = "\<lparr>optimized = True, os_environ = [(''HOME'', ''/root'')], agents = [], main_started = False\<rparr>"
       and bs = "[]" and m = Autonomous_agent and as_main = False]
  by (simp add: Let_def os_getenv_def dotenv_values_def dotenv_dict_def)

text \<open>
  Claim C8 as stated lets the start go on whenever the key is present, and fail
  whenever the process environment lacks it. With assertions on, a key that is
  present but empty fails the assertion, and a key absent from the process
  environment but given in the \<^verbatim>\<open>.env\<close> file passes it; and in a process started
  with \<^verbatim>\<open>-O\<close> the start goes on without any key.
\<close>

theorem load_module_credential_counterexample:
  "os_getenv [(''GOOGLE_API_KEY'', [])] ''GOOGLE_API_KEY'' = Some []
   \<and> fst (load_module Autonomous_agent True (Inr [])
            \<lparr>optimized = False, os_environ = [(''GOOGLE_API_KEY'', [])],
             agents = [], main_started = False\<rparr>)
       = Some (AssertionError ''Set GOOGLE_API_KEY in .env'')
   \<and> os_getenv [] ''GOOGLE_API_KEY'' = None
   \<and> fst (load_module Autonomous_agent True (Inr [(''GOOGLE_API_KEY'', Some ''secret'')])
            \<lparr>optimized = False, os_environ = [], agents = [], main_started = False\<rparr>)
       = None
   \<and> dotenv_values [] ''GOOGLE_API_KEY'' = None
   \<and> load_module Autonomous_agent True (Inr [])
         \<lparr>optimized = True, os_environ = [], agents = [], main_started = False\<rparr>
       = (None, \<lparr>optimized = True, os_environ = [],
                 agents = [''video_creator_agent''], main_started = True\<rparr>)"
  by (simp add: load_module_def load_dotenv_def os_getenv_def dotenv_values_def dotenv_dict_def
      truthy_def)

section \<open>The pipeline of \<^verbatim>\<open>complete_script_img_agent.py\<close>\<close>

subsection \<open>Stage 2\<close>

lemma first_final_skip:
  "\<forall>s \<in> set pre. \<exists>t. s = Yield False t \<Longrightarrow> first_final (pre @ rest) = first_final rest"
  by (induction pre) auto

lemma keywords_prompt_requests:
  "py_in ''Extract 5-8 relevant keywords'' (keywords_prompt script_content)"
  unfolding keywords_prompt_def
  by (intro py_in_appendI) (simp add: keywords_prompt_tail_def)

text \<open>
  Claim C5, as amended. \<^verbatim>\<open>extract_keywords\<close> returns the text of the keyword agent's
  first final response unchanged, and the empty string when the stream ends without
  a final response. The prompt asks for 5-8 keywords; the answer is not checked
  against that range.
\<close>

theorem extract_keywords_verbatim:
  "(run_async e ''keyword_agent'' ''keyword_session'' (keywords_prompt script_content)
      = pre @ Yield True (Inr answer) # post
    \<and> (\<forall>s \<in> set pre. \<exists>t. s = Yield False t)
    \<longrightarrow> extract_keywords e script_content = Inr answer)
   \<and> ((\<forall>s \<in> set (run_async e ''keyword_agent'' ''keyword_session'' (keywords_prompt script_content)).
          \<exists>t. s = Yield False t)
    \<longrightarrow> extract_keywords e script_content = Inr [])
   \<and> py_in ''Extract 5-8 relevant keywords'' (keywords_prompt script_content)"
proof (intro conjI impI)
  assume "run_async e ''keyword_agent'' ''keyword_session'' (keywords_prompt script_content)
      = pre @ Yield True (Inr answer) # post
    \<and> (\<forall>s \<in> set pre. \<exists>t. s = Yield False t)"
  then show "extract_keywords e script_content = Inr answer"
    by (simp add: extract_keywords_def first_final_skip)
next
  assume "\<forall>s \<in> set (run_async e ''keyword_agent'' ''keyword_session'' (keywords_prompt script_content)).
          \<exists>t. s = Yield False t"
  then show "extract_keywords e script_content = Inr []"
    using first_final_skip [of "run_async e ''keyword_agent'' ''keyword_session'' (keywords_prompt script_content)" "[]"]
    by (simp add: extract_keywords_def)
next
  show "py_in ''Extract 5-8 relevant keywords'' (keywords_prompt script_content)"
    by (rule keywords_prompt_requests)
qed

theorem extract_keywords_verbatim_witness:
  "extract_keywords (answers_env demo_script two_keywords_answer (Inl decode_error)) demo_script
     = Inr two_keywords_answer
   \<and> extract_keywords no_final_env demo_script = Inr []"
proof -
  have final: "run_async (answers_env demo_script two_keywords_answer (Inl decode_error))
      ''keyword_agent'' ''keyword_session'' (keywords_prompt demo_script)
      = [] @ Yield True (Inr two_keywords_answer) # []"
    by (simp add: answers_env_def)
  have silent: "\<forall>s \<in> set (run_async no_final_env ''keyword_agent'' ''keyword_session''
      (keywords_prompt demo_script)). \<exists>t. s = Yield False t"
    by (simp add: no_final_env_def)
  from final silent show ?thesis
    using extract_keywords_verbatim [of "answers_env demo_script two_keywords_answer (Inl decode_error)"
        demo_script "[]" two_keywords_answer "[]"]
      extract_keywords_verbatim [of no_final_env demo_script "[]" "[]" "[]"]
    by simp
qed

text \<open>
  Claim C5 as stated gives every keyword list of stage 2 between 5 and 8 entries. An
  agent that answers with one keyword is passed through: stage 3 parses a list of
  length 1.
\<close>

theorem extract_keywords_verbatim_counterexample:
  "extract_keywords (answers_env demo_script one_keyword_answer
        (Inr (JObj [(''keywords'', JArr [JStr ''mitochondria''])]))) demo_script
     = Inr one_keyword_answer
   \<and> json_loads (answers_env demo_script one_keyword_answer
        (Inr (JObj [(''keywords'', JArr [JStr ''mitochondria''])]))) one_keyword_answer
     = Inr (JObj [(''keywords'', JArr [JStr ''mitochondria''])])
   \<and> \<not> 5 \<le> length [JStr ''mitochondria'']"
  by code_simp

subsection \<open>Stage 3\<close>











subsection \<open>\<^verbatim>\<open>run_complete_pipeline\<close>\<close>









end
